theory Spec2Isabelle
  imports Complex_Main
begin

section \<open>Guidance publisher: frame conversion and command computation\<close>

text \<open>
  A shallow embedding of \<^verbatim>\<open>scripts/guidance_publisher.py\<close>. Python floats are read as
  real numbers with exact arithmetic: the properties below are stated for every real
  angle, so rounding, infinities and NaN are outside this model.
\<close>

subsection \<open>The float operators and the numpy functions the script calls\<close>

text \<open>
  Python's \<^verbatim>\<open>x % y\<close> on floats takes the C remainder \<^verbatim>\<open>fmod(x, y)\<close>, which
  truncates the quotient towards zero and so carries the sign of \<^verbatim>\<open>x\<close>, and then adds
  \<^verbatim>\<open>y\<close> when the remainder is non-zero and its sign differs from the sign of
  \<^verbatim>\<open>y\<close>; numpy's remainder on its floats does the same. The script only ever divides by \<^verbatim>\<open>2 * np.pi\<close>, so the zero divisor
  (where Python raises) is never met; \<open>two_pi_pos\<close> below records that.
\<close>

definition trunc_real :: "real \<Rightarrow> int" where
  "trunc_real q = (if 0 \<le> q then \<lfloor>q\<rfloor> else \<lceil>q\<rceil>)"

definition c_fmod :: "real \<Rightarrow> real \<Rightarrow> real" where
  "c_fmod x y = x - y * of_int (trunc_real (x / y))"

definition float_mod :: "real \<Rightarrow> real \<Rightarrow> real" where
  "float_mod x y =
     (let m = c_fmod x y
      in if m \<noteq> 0 then (if (y < 0) \<noteq> (m < 0) then m + y else m) else 0)"

text \<open>\<^verbatim>\<open>np.deg2rad(d)\<close> is \<^verbatim>\<open>d * (pi / 180)\<close>.\<close>

definition np_deg2rad :: "real \<Rightarrow> real" where
  "np_deg2rad d = d * (pi / 180)"

text \<open>\<^verbatim>\<open>np.clip(a, lo, hi)\<close> is \<^verbatim>\<open>minimum(maximum(a, lo), hi)\<close>.\<close>

definition np_clip :: "real \<Rightarrow> real \<Rightarrow> real \<Rightarrow> real" where
  "np_clip a lo hi = min (max a lo) hi"

text \<open>
  \<^verbatim>\<open>np.arctan2(y, x)\<close>: the angle of the point \<^verbatim>\<open>(x, y)\<close> in \<open>(-\<pi>, \<pi>]\<close>, by
  quadrant, and \<open>0\<close> at the origin.
\<close>

definition np_arctan2 :: "real \<Rightarrow> real \<Rightarrow> real" where
  "np_arctan2 y x =
     (if 0 < x then arctan (y / x)
      else if x < 0 then (if 0 \<le> y then arctan (y / x) + pi else arctan (y / x) - pi)
      else if 0 < y then pi / 2
      else if y < 0 then - (pi / 2)
      else 0)"

subsection \<open>The module-level functions\<close>

definition wrap_to_pi :: "real \<Rightarrow> real" where
  "wrap_to_pi angle = float_mod (angle + pi) (2 * pi) - pi"

definition yaw_enu_to_ned :: "real \<Rightarrow> real" where
  "yaw_enu_to_ned yaw_enu = (let yaw_ned = pi / 2 - yaw_enu in wrap_to_pi yaw_ned)"

definition get_relative_ned_yaw_cmd :: "real \<Rightarrow> real \<Rightarrow> real" where
  "get_relative_ned_yaw_cmd current_ned_yaw inert_ned_yaw_cmd =
     (let yaw_cmd = inert_ned_yaw_cmd - current_ned_yaw in wrap_to_pi yaw_cmd)"

subsection \<open>Errors, list indexing and the messages\<close>

text \<open>
  The two exceptions the methods could raise: indexing a list out of range, and
  arithmetic on \<^verbatim>\<open>None\<close>. A method returns \<open>Inl\<close> of the exception or \<open>Inr\<close> of
  the node after the call.
\<close>

datatype py_error = TypeError | IndexError

definition bind_err :: "py_error + 'a \<Rightarrow> ('a \<Rightarrow> py_error + 'b) \<Rightarrow> py_error + 'b" where
  "bind_err m f = (case m of Inl e \<Rightarrow> Inl e | Inr v \<Rightarrow> f v)"

definition getitem :: "'a list \<Rightarrow> nat \<Rightarrow> py_error + 'a" where
  "getitem xs i = (if i < length xs then Inr (xs ! i) else Inl IndexError)"

definition setitem :: "'a list \<Rightarrow> nat \<Rightarrow> 'a \<Rightarrow> py_error + 'a list" where
  "setitem xs i v = (if i < length xs then Inr (xs[i := v]) else Inl IndexError)"

text \<open>A slot of \<^verbatim>\<open>current_state\<close> used as an operand: \<^verbatim>\<open>None\<close> raises.\<close>

definition operand :: "real option \<Rightarrow> py_error + real" where
  "operand v = (case v of None \<Rightarrow> Inl TypeError | Some r \<Rightarrow> Inr r)"

text \<open>The \<^verbatim>\<open>CtlTraj\<close> message, and the fields of the odometry message the callback reads.\<close>

record ctl_traj =
  roll :: "real list"
  pitch :: "real list"
  yaw :: "real list"
  idx :: int
  thrust :: "real list"

record odometry =
  position_x :: real
  position_y :: real
  position_z :: real
  orientation_x :: real
  orientation_y :: real
  orientation_z :: real
  orientation_w :: real
  linear_x :: real
  linear_y :: real
  linear_z :: real

subsection \<open>The node\<close>

text \<open>
  The node's fields. \<open>trajectory_publisher\<close> holds the messages published on the
  \<^verbatim>\<open>trajectory\<close> topic so far, oldest first; \<open>current_state\<close> has a slot for each of
  x, y, z, phi, theta, psi and airspeed, \<open>None\<close> until it is written.
\<close>

record guidance_publisher =
  trajectory_publisher :: "ctl_traj list"
  target :: "real list"
  current_state :: "real option list"

definition GuidancePublisher_init :: guidance_publisher where
  "GuidancePublisher_init =
     \<lparr>trajectory_publisher = [],
      target = [- 170, - 170, 50],
      current_state = [None, None, None, None, None, None, None]\<rparr>"

definition publish_trajectory :: "guidance_publisher \<Rightarrow> ctl_traj \<Rightarrow> guidance_publisher" where
  "publish_trajectory self trajectory =
     self\<lparr>trajectory_publisher := trajectory_publisher self @ [trajectory]\<rparr>"

text \<open>
  \<^verbatim>\<open>calculate_trajectory\<close>. The operands are read in Python's order, left before right.
  \<^verbatim>\<open>dist\<close> is only printed, which the model leaves out.
\<close>

definition calculate_trajectory :: "guidance_publisher \<Rightarrow> py_error + guidance_publisher" where
  "calculate_trajectory self =
     bind_err (getitem (current_state self) 0) (\<lambda>s0.
     if s0 = None then Inr self
     else
     bind_err (getitem (target self) 0) (\<lambda>t0.
     bind_err (operand s0) (\<lambda>x.
     bind_err (getitem (target self) 1) (\<lambda>t1.
     bind_err (getitem (current_state self) 1) (\<lambda>s1.
     bind_err (operand s1) (\<lambda>y.
     bind_err (getitem (target self) 2) (\<lambda>t2.
     bind_err (getitem (current_state self) 2) (\<lambda>s2.
     bind_err (operand s2) (\<lambda>z.
     let dx = t0 - x;
         dy = t1 - y;
         dz = t2 - z;
         dist = sqrt (dx\<^sup>2 + dy\<^sup>2);
         enu_yaw_rad = np_arctan2 dy dx;
         ned_yaw_rad = yaw_enu_to_ned enu_yaw_rad
     in
     bind_err (getitem (current_state self) 5) (\<lambda>s5.
     bind_err (operand s5) (\<lambda>psi.
     let ned_yaw_state = yaw_enu_to_ned psi;
         rel_yaw_cmd = get_relative_ned_yaw_cmd ned_yaw_state ned_yaw_rad;
         kp = 0.5;
         roll_cmd = kp * rel_yaw_cmd;
         roll_cmd = np_clip roll_cmd (- np_deg2rad 45) (np_deg2rad 45);
         kp_pitch = 0.25;
         pitch_cmd = kp_pitch * dz;
         pitch_cmd = np_clip pitch_cmd (- np_deg2rad 15) (np_deg2rad 10);
         thrust_cmd = 0.5;
         trajectory = \<lparr>roll = [roll_cmd, roll_cmd],
                       pitch = [pitch_cmd, pitch_cmd],
                       yaw = [rel_yaw_cmd, rel_yaw_cmd],
                       idx = 0,
                       thrust = [thrust_cmd, thrust_cmd, thrust_cmd]\<rparr>
     in Inr (publish_trajectory self trajectory))))))))))))"

text \<open>
  \<^verbatim>\<open>mavros_state_callback\<close>. \<^verbatim>\<open>rot_utils.euler_from_quaternion\<close> is not part of the
  script: it is the parameter \<open>euler_from_quaternion\<close>, a function from the four
  quaternion components to roll, pitch and yaw.
\<close>

definition store :: "guidance_publisher \<Rightarrow> nat \<Rightarrow> real \<Rightarrow> py_error + guidance_publisher" where
  "store self i v =
     bind_err (setitem (current_state self) i (Some v)) (\<lambda>cs. Inr (self\<lparr>current_state := cs\<rparr>))"

definition mavros_state_callback ::
  "(real \<Rightarrow> real \<Rightarrow> real \<Rightarrow> real \<Rightarrow> real \<times> real \<times> real) \<Rightarrow>
   guidance_publisher \<Rightarrow> odometry \<Rightarrow> py_error + guidance_publisher" where
  "mavros_state_callback euler_from_quaternion self msg =
     bind_err (store self 0 (position_x msg)) (\<lambda>self.
     bind_err (store self 1 (position_y msg)) (\<lambda>self.
     bind_err (store self 2 (position_z msg)) (\<lambda>self.
     let qx = orientation_x msg;
         qy = orientation_y msg;
         qz = orientation_z msg;
         qw = orientation_w msg;
         (roll, pitch, yaw) = euler_from_quaternion qx qy qz qw
     in
     bind_err (store self 3 roll) (\<lambda>self.
     bind_err (store self 4 pitch) (\<lambda>self.
     bind_err (store self 5 yaw) (\<lambda>self.
     let vx = linear_x msg;
         vy = linear_y msg;
         vz = linear_z msg
     in
     bind_err (store self 6 (sqrt (vx\<^sup>2 + vy\<^sup>2 + vz\<^sup>2))) (\<lambda>self.
     calculate_trajectory self)))))))"

text \<open>
  What can happen to a node: a pose sample is delivered to the callback, or
  \<^verbatim>\<open>calculate_trajectory\<close> is called directly. A run is a list of such events, and
  stops at the first exception.
\<close>

datatype event = PoseSample odometry | ComputeCommand

fun step ::
  "(real \<Rightarrow> real \<Rightarrow> real \<Rightarrow> real \<Rightarrow> real \<times> real \<times> real) \<Rightarrow>
   guidance_publisher \<Rightarrow> event \<Rightarrow> py_error + guidance_publisher" where
  "step euler self (PoseSample msg) = mavros_state_callback euler self msg"
| "step euler self ComputeCommand = calculate_trajectory self"

fun run ::
  "(real \<Rightarrow> real \<Rightarrow> real \<Rightarrow> real \<Rightarrow> real \<times> real \<times> real) \<Rightarrow>
   guidance_publisher \<Rightarrow> event list \<Rightarrow> py_error + guidance_publisher" where
  "run euler self [] = Inr self"
| "run euler self (e # es) = bind_err (step euler self e) (\<lambda>self. run euler self es)"

subsection \<open>Predicates on nodes and messages, and a test scenario\<close>

text \<open>Every slot of \<open>current_state\<close> holds a number.\<close>

definition fully_populated :: "guidance_publisher \<Rightarrow> bool" where
  "fully_populated self =
     (length (current_state self) = 7 \<and> list_all (\<lambda>v. v \<noteq> None) (current_state self))"

text \<open>
  The shape the lists keep: three target coordinates, seven state slots, and the slots
  either all empty or all written.
\<close>

definition state_inv :: "guidance_publisher \<Rightarrow> bool" where
  "state_inv self =
     (length (target self) = 3 \<and> length (current_state self) = 7
      \<and> (list_all (\<lambda>v. v = None) (current_state self)
         \<or> list_all (\<lambda>v. v \<noteq> None) (current_state self)))"

text \<open>A message with the arity of the wire format and every angle within its limits.\<close>

definition in_limits :: "ctl_traj \<Rightarrow> bool" where
  "in_limits m =
     (roll m = [hd (roll m), hd (roll m)]
      \<and> pitch m = [hd (pitch m), hd (pitch m)]
      \<and> yaw m = [hd (yaw m), hd (yaw m)]
      \<and> idx m = 0
      \<and> thrust m = [0.5, 0.5, 0.5]
      \<and> - pi \<le> hd (yaw m) \<and> hd (yaw m) < pi
      \<and> - np_deg2rad 45 \<le> hd (roll m) \<and> hd (roll m) \<le> np_deg2rad 45
      \<and> - np_deg2rad 15 \<le> hd (pitch m) \<and> hd (pitch m) \<le> np_deg2rad 10)"

text \<open>
  The scenario of a vehicle at the origin, level, with ENU yaw \<open>0\<close> and at rest, and the
  pose sample and attitude conversion that put a fresh node into that state.
\<close>

definition scenario_state :: guidance_publisher where
  "scenario_state =
     GuidancePublisher_init
       \<lparr>current_state := [Some 0, Some 0, Some 0, Some 0, Some 0, Some 0, Some 0]\<rparr>"

definition scenario_msg :: odometry where
  "scenario_msg =
     \<lparr>position_x = 0, position_y = 0, position_z = 0,
      orientation_x = 0, orientation_y = 0, orientation_z = 0, orientation_w = 1,
      linear_x = 0, linear_y = 0, linear_z = 0\<rparr>"

definition scenario_euler :: "real \<Rightarrow> real \<Rightarrow> real \<Rightarrow> real \<Rightarrow> real \<times> real \<times> real" where
  "scenario_euler qx qy qz qw = (0, 0, 0)"

text \<open>The message the scenario produces, as computed by hand.\<close>

definition scenario_cmd :: ctl_traj where
  "scenario_cmd =
     \<lparr>roll = [np_deg2rad 45, np_deg2rad 45],
      pitch = [np_deg2rad 10, np_deg2rad 10],
      yaw = [3 * pi / 4, 3 * pi / 4],
      idx = 0,
      thrust = [0.5, 0.5, 0.5]\<rparr>"

section \<open>Properties of the modulo and of the wrap\<close>

lemma two_pi_pos: "0 < 2 * pi"
  by simp

text \<open>For a positive divisor the two-step float modulo is the floored modulo.\<close>

lemma float_mod_floor:
  assumes "0 < y"
  shows "float_mod x y = x - y * of_int \<lfloor>x / y\<rfloor>"
proof (cases "0 \<le> x / y")
  case True
  have "y * of_int \<lfloor>x / y\<rfloor> \<le> y * (x / y)"
    using assms by (intro mult_left_mono) auto
  then have "0 \<le> x - y * of_int \<lfloor>x / y\<rfloor>"
    using assms by simp
  then show ?thesis
    using True assms by (auto simp: float_mod_def c_fmod_def trunc_real_def Let_def)
next
  case False
  have up: "y * (x / y) \<le> y * of_int \<lceil>x / y\<rceil>"
    using assms by (intro mult_left_mono) auto
  then have le0: "x - y * of_int \<lceil>x / y\<rceil> \<le> 0"
    using assms by simp
  show ?thesis
  proof (cases "x - y * of_int \<lceil>x / y\<rceil> = 0")
    case True
    then have "x / y = of_int \<lceil>x / y\<rceil>"
      using assms by (simp add: field_simps)
    then have "of_int \<lfloor>x / y\<rfloor> = (of_int \<lceil>x / y\<rceil> :: real)"
      by (metis floor_of_int)
    then show ?thesis
      using True \<open>\<not> 0 \<le> x / y\<close>
      by (simp add: float_mod_def c_fmod_def trunc_real_def Let_def)
  next
    case False
    then have neg: "x - y * of_int \<lceil>x / y\<rceil> < 0"
      using le0 by simp
    have "x / y \<noteq> of_int \<lceil>x / y\<rceil>"
      using False assms by (auto simp: field_simps)
    then have "x / y \<noteq> of_int \<lfloor>x / y\<rfloor>"
      by (metis ceiling_of_int)
    then have "\<lceil>x / y\<rceil> = \<lfloor>x / y\<rfloor> + 1"
      by (simp add: ceiling_altdef)
    then show ?thesis
      using False neg assms \<open>\<not> 0 \<le> x / y\<close>
      by (simp add: float_mod_def c_fmod_def trunc_real_def Let_def algebra_simps)
  qed
qed

lemma float_mod_range:
  assumes "0 < y"
  shows "0 \<le> float_mod x y" and "float_mod x y < y"
proof -
  have lo: "of_int \<lfloor>x / y\<rfloor> \<le> x / y" and hi: "x / y < of_int \<lfloor>x / y\<rfloor> + 1"
    by linarith+
  have "y * of_int \<lfloor>x / y\<rfloor> \<le> y * (x / y)"
    using assms lo by (intro mult_left_mono) auto
  then show "0 \<le> float_mod x y"
    using assms by (simp add: float_mod_floor)
  have "y * (x / y) < y * (of_int \<lfloor>x / y\<rfloor> + 1)"
    using assms hi by (intro mult_strict_left_mono) auto
  then show "float_mod x y < y"
    using assms by (simp add: float_mod_floor algebra_simps)
qed

lemma wrap_to_pi_floor:
  "wrap_to_pi a = a - 2 * pi * of_int \<lfloor>(a + pi) / (2 * pi)\<rfloor>"
  by (simp add: wrap_to_pi_def float_mod_floor)

lemma wrap_to_pi_range: "- pi \<le> wrap_to_pi a" "wrap_to_pi a < pi"
  using float_mod_range [OF two_pi_pos, of "a + pi"]
  by (simp_all add: wrap_to_pi_def)

text \<open>A value of \<open>[-\<pi>, \<pi>)\<close> shifted by whole turns wraps back to itself.\<close>

lemma wrap_to_pi_shift:
  assumes "- pi \<le> v" and "v < pi"
  shows "wrap_to_pi (v + 2 * pi * of_int k) = v"
proof -
  have eq: "(v + 2 * pi * of_int k + pi) / (2 * pi) = (v + pi) / (2 * pi) + of_int k"
    by (simp add: field_simps)
  have "0 \<le> (v + pi) / (2 * pi)" and "(v + pi) / (2 * pi) < 1"
    using assms by simp_all
  then have "\<lfloor>(v + pi) / (2 * pi)\<rfloor> = 0"
    by linarith
  then have "\<lfloor>(v + 2 * pi * of_int k + pi) / (2 * pi)\<rfloor> = k"
    unfolding eq by simp
  then show ?thesis
    by (simp add: wrap_to_pi_floor)
qed

text \<open>
  Claim C1. For every real angle, \<open>wrap_to_pi\<close> returns a value of the half-open interval
  \<open>[-\<pi>, \<pi>)\<close> that differs from the angle by a whole multiple of \<open>2\<pi>\<close>; it is
  \<open>((angle + \<pi>) mod 2\<pi>) - \<pi>\<close>, where the modulo is the floored one and lies in
  \<open>[0, 2\<pi>)\<close> whatever the sign of its argument.
\<close>

theorem wrap_to_pi_spec:
  "- pi \<le> wrap_to_pi a \<and> wrap_to_pi a < pi
   \<and> wrap_to_pi a = a + 2 * pi * of_int (- \<lfloor>(a + pi) / (2 * pi)\<rfloor>)
   \<and> wrap_to_pi a = float_mod (a + pi) (2 * pi) - pi
   \<and> float_mod (a + pi) (2 * pi) = (a + pi) - 2 * pi * of_int \<lfloor>(a + pi) / (2 * pi)\<rfloor>
   \<and> 0 \<le> float_mod (a + pi) (2 * pi) \<and> float_mod (a + pi) (2 * pi) < 2 * pi"
proof -
  have "wrap_to_pi a = a + 2 * pi * of_int (- \<lfloor>(a + pi) / (2 * pi)\<rfloor>)"
    by (simp add: wrap_to_pi_floor)
  moreover have "wrap_to_pi a = float_mod (a + pi) (2 * pi) - pi"
    by (simp add: wrap_to_pi_def)
  moreover have "float_mod (a + pi) (2 * pi) = (a + pi) - 2 * pi * of_int \<lfloor>(a + pi) / (2 * pi)\<rfloor>"
    by (rule float_mod_floor [OF two_pi_pos])
  ultimately show ?thesis
    using wrap_to_pi_range [of a] float_mod_range [OF two_pi_pos, of "a + pi"]
    by blast
qed

lemma wrap_to_pi_id:
  assumes "- pi \<le> v" and "v < pi"
  shows "wrap_to_pi v = v"
  using wrap_to_pi_shift [OF assms, of 0] by simp

lemma wrap_to_pi_turns: "wrap_to_pi (2 * pi * of_int k) = 0"
  using wrap_to_pi_shift [of 0 k] by simp

text \<open>
  Claim C2. Converting a yaw from ENU to NED twice gives back the angle up to whole
  turns: for every real \<open>\<theta>\<close>, the wrapped difference between
  \<open>yaw_enu_to_ned (yaw_enu_to_ned \<theta>)\<close> and \<open>\<theta>\<close> is \<open>0\<close>.
\<close>

theorem yaw_enu_to_ned_involution:
  "wrap_to_pi (yaw_enu_to_ned (yaw_enu_to_ned \<theta>) - \<theta>) = 0"
proof -
  define k1 where "k1 = \<lfloor>(pi / 2 - \<theta> + pi) / (2 * pi)\<rfloor>"
  define k2 where "k2 = \<lfloor>(pi / 2 - yaw_enu_to_ned \<theta> + pi) / (2 * pi)\<rfloor>"
  have y1: "yaw_enu_to_ned \<theta> = pi / 2 - \<theta> - 2 * pi * of_int k1"
    by (simp add: yaw_enu_to_ned_def wrap_to_pi_floor k1_def)
  have y2: "yaw_enu_to_ned (yaw_enu_to_ned \<theta>) = pi / 2 - yaw_enu_to_ned \<theta> - 2 * pi * of_int k2"
    unfolding k2_def by (simp add: yaw_enu_to_ned_def [of "yaw_enu_to_ned \<theta>"] wrap_to_pi_floor)
  have "yaw_enu_to_ned (yaw_enu_to_ned \<theta>) - \<theta> = 2 * pi * of_int (k1 - k2)"
    unfolding y2 unfolding y1 by (simp add: algebra_simps)
  then show ?thesis
    by (simp only: wrap_to_pi_turns)
qed

text \<open>
  Claim C8. For every real heading \<open>a\<close>, the relative yaw command between \<open>a\<close> and
  itself is \<open>0\<close>.
\<close>

theorem relative_yaw_same_heading: "get_relative_ned_yaw_cmd a a = 0"
  using wrap_to_pi_turns [of 0] by (simp add: get_relative_ned_yaw_cmd_def)

section \<open>Properties of the node\<close>

lemma bind_err_simps [simp]: "bind_err (Inr v) f = f v" "bind_err (Inl e) f = Inl e"
  by (simp_all add: bind_err_def)

lemma np_clip_bounds:
  assumes "lo \<le> hi"
  shows "lo \<le> np_clip a lo hi" and "np_clip a lo hi \<le> hi"
  using assms by (simp_all add: np_clip_def)

lemma deg_bounds: "- np_deg2rad 45 \<le> np_deg2rad 45" "- np_deg2rad 15 \<le> np_deg2rad 10"
  unfolding np_deg2rad_def using pi_gt_zero by linarith+

lemma rel_range:
  "- pi \<le> get_relative_ned_yaw_cmd a b" "get_relative_ned_yaw_cmd a b < pi"
  by (simp_all add: get_relative_ned_yaw_cmd_def wrap_to_pi_range)

text \<open>The command computed from a state whose position and yaw are written.\<close>

lemma calc_pop:
  assumes "current_state self = [Some x, Some y, Some z, phi, theta, Some psi, v]"
    and "target self = [tx, ty, tz]"
  shows "calculate_trajectory self =
     Inr (publish_trajectory self
       \<lparr>roll = [np_clip (0.5 * get_relative_ned_yaw_cmd (yaw_enu_to_ned psi) (yaw_enu_to_ned (np_arctan2 (ty - y) (tx - x)))) (- np_deg2rad 45) (np_deg2rad 45),
                np_clip (0.5 * get_relative_ned_yaw_cmd (yaw_enu_to_ned psi) (yaw_enu_to_ned (np_arctan2 (ty - y) (tx - x)))) (- np_deg2rad 45) (np_deg2rad 45)],
        pitch = [np_clip (0.25 * (tz - z)) (- np_deg2rad 15) (np_deg2rad 10),
                 np_clip (0.25 * (tz - z)) (- np_deg2rad 15) (np_deg2rad 10)],
        yaw = [get_relative_ned_yaw_cmd (yaw_enu_to_ned psi) (yaw_enu_to_ned (np_arctan2 (ty - y) (tx - x))),
               get_relative_ned_yaw_cmd (yaw_enu_to_ned psi) (yaw_enu_to_ned (np_arctan2 (ty - y) (tx - x)))],
        idx = 0,
        thrust = [0.5, 0.5, 0.5]\<rparr>)"
  using assms by (simp add: calculate_trajectory_def getitem_def operand_def Let_def)

lemma calc_guard:
  assumes "getitem (current_state self) 0 = Inr None"
  shows "calculate_trajectory self = Inr self"
  using assms by (simp add: calculate_trajectory_def)

lemma list7:
  assumes "length xs = 7"
  obtains a b c d e f g where "xs = [a, b, c, d, e, f, g]"
  using assms by (auto simp: eval_nat_numeral length_Suc_conv)

lemma list3:
  assumes "length xs = 3"
  obtains a b c where "xs = [a, b, c]"
  using assms by (auto simp: eval_nat_numeral length_Suc_conv)

text \<open>The callback writes the seven slots and then computes the command.\<close>

lemma callback_effect:
  assumes "length (current_state self) = 7"
  shows "mavros_state_callback euler self msg =
     calculate_trajectory (self\<lparr>current_state :=
       [Some (position_x msg), Some (position_y msg), Some (position_z msg),
        Some (fst (euler (orientation_x msg) (orientation_y msg) (orientation_z msg) (orientation_w msg))),
        Some (fst (snd (euler (orientation_x msg) (orientation_y msg) (orientation_z msg) (orientation_w msg)))),
        Some (snd (snd (euler (orientation_x msg) (orientation_y msg) (orientation_z msg) (orientation_w msg)))),
        Some (sqrt ((linear_x msg)\<^sup>2 + (linear_y msg)\<^sup>2 + (linear_z msg)\<^sup>2))]\<rparr>)"
proof -
  from assms obtain a b c d e f g where "current_state self = [a, b, c, d, e, f, g]"
    by (rule list7)
  then show ?thesis
    by (simp add: mavros_state_callback_def store_def setitem_def Let_def split_beta)
qed

text \<open>Whatever the node, a call that returns has published nothing or one message within limits.\<close>

lemma calc_result:
  assumes "calculate_trajectory self = Inr s'"
  shows "s' = self \<or> (\<exists>m. s' = publish_trajectory self m \<and> in_limits m)"
proof -
  have lim: "in_limits
       \<lparr>roll = [np_clip (0.5 * get_relative_ned_yaw_cmd a b) (- np_deg2rad 45) (np_deg2rad 45),
                np_clip (0.5 * get_relative_ned_yaw_cmd a b) (- np_deg2rad 45) (np_deg2rad 45)],
        pitch = [np_clip (0.25 * dz) (- np_deg2rad 15) (np_deg2rad 10),
                 np_clip (0.25 * dz) (- np_deg2rad 15) (np_deg2rad 10)],
        yaw = [get_relative_ned_yaw_cmd a b, get_relative_ned_yaw_cmd a b],
        idx = 0,
        thrust = [0.5, 0.5, 0.5]\<rparr>" for a b dz
    unfolding in_limits_def
    using rel_range [of a b] np_clip_bounds [OF deg_bounds(1)] np_clip_bounds [OF deg_bounds(2)]
    by simp
  show ?thesis
    using assms lim
    by (auto simp: calculate_trajectory_def bind_err_def Let_def split: sum.splits if_splits)
qed

text \<open>On a node of the expected shape the call returns and leaves the state slots alone.\<close>

lemma calc_inv:
  assumes "state_inv self"
  shows "\<exists>s'. calculate_trajectory self = Inr s' \<and> state_inv s'
           \<and> current_state s' = current_state self"
proof -
  from assms obtain a b c d e f g where cs: "current_state self = [a, b, c, d, e, f, g]"
    unfolding state_inv_def by (elim conjE list7)
  from assms obtain tx ty tz where tg: "target self = [tx, ty, tz]"
    unfolding state_inv_def by (elim conjE list3)
  show ?thesis
  proof (cases a)
    case None
    then have "calculate_trajectory self = Inr self"
      using cs by (intro calc_guard) (simp add: getitem_def)
    then show ?thesis using assms by simp
  next
    case (Some x)
    then obtain y z ph th psi v where
      "current_state self = [Some x, Some y, Some z, Some ph, Some th, Some psi, Some v]"
      using assms cs unfolding state_inv_def by auto
    from calc_pop [OF this tg] show ?thesis
      using assms by (simp add: publish_trajectory_def state_inv_def)
  qed
qed

text \<open>The shape is kept by every event, and every new message is within limits.\<close>

lemma init_inv: "state_inv GuidancePublisher_init"
  by (simp add: state_inv_def GuidancePublisher_init_def)

lemma callback_inv:
  assumes "state_inv self"
  shows "\<exists>s'. mavros_state_callback euler self msg = Inr s' \<and> state_inv s' \<and> fully_populated s'"
proof -
  let ?mid = "self\<lparr>current_state :=
       [Some (position_x msg), Some (position_y msg), Some (position_z msg),
        Some (fst (euler (orientation_x msg) (orientation_y msg) (orientation_z msg) (orientation_w msg))),
        Some (fst (snd (euler (orientation_x msg) (orientation_y msg) (orientation_z msg) (orientation_w msg)))),
        Some (snd (snd (euler (orientation_x msg) (orientation_y msg) (orientation_z msg) (orientation_w msg)))),
        Some (sqrt ((linear_x msg)\<^sup>2 + (linear_y msg)\<^sup>2 + (linear_z msg)\<^sup>2))]\<rparr>"
  have eq: "mavros_state_callback euler self msg = calculate_trajectory ?mid"
    using assms by (intro callback_effect) (simp add: state_inv_def)
  have "state_inv ?mid"
    using assms by (simp add: state_inv_def)
  from calc_inv [OF this] obtain s' where
    s': "calculate_trajectory ?mid = Inr s'" "state_inv s'" "current_state s' = current_state ?mid"
    by blast
  then have "fully_populated s'"
    by (simp add: fully_populated_def)
  then show ?thesis
    using eq s' by simp
qed

lemma callback_msgs:
  assumes "mavros_state_callback euler self msg = Inr s'" and "state_inv self"
  shows "trajectory_publisher s' = trajectory_publisher self
         \<or> (\<exists>m. trajectory_publisher s' = trajectory_publisher self @ [m] \<and> in_limits m)"
proof -
  have "length (current_state self) = 7"
    using assms(2) by (simp add: state_inv_def)
  from callback_effect [OF this, of euler msg] assms(1)
  obtain mid where "calculate_trajectory mid = Inr s'"
    and "trajectory_publisher mid = trajectory_publisher self"
    by (metis (no_types, lifting) guidance_publisher.select_convs(1)
        guidance_publisher.surjective guidance_publisher.update_convs(3))
  then show ?thesis
    using calc_result [of mid s'] by (auto simp: publish_trajectory_def)
qed

lemma step_inv:
  assumes "state_inv self"
  shows "\<exists>s'. step euler self e = Inr s' \<and> state_inv s'
     \<and> (\<forall>m \<in> set (trajectory_publisher s'). m \<in> set (trajectory_publisher self) \<or> in_limits m)"
proof (cases e)
  case (PoseSample msg)
  from callback_inv [OF assms, of euler msg] obtain s' where
    s': "mavros_state_callback euler self msg = Inr s'" "state_inv s'"
    by blast
  from callback_msgs [OF s'(1) assms] show ?thesis
    using PoseSample s' by auto
next
  case ComputeCommand
  from calc_inv [OF assms] obtain s' where
    s': "calculate_trajectory self = Inr s'" "state_inv s'"
    by blast
  from calc_result [OF s'(1)] show ?thesis
    using ComputeCommand s' by (auto simp: publish_trajectory_def)
qed

lemma run_inv:
  assumes "state_inv self"
  shows "\<exists>s'. run euler self es = Inr s' \<and> state_inv s'
     \<and> (\<forall>m \<in> set (trajectory_publisher s'). m \<in> set (trajectory_publisher self) \<or> in_limits m)"
  using assms
proof (induction es arbitrary: self)
  case Nil
  then show ?case by simp
next
  case (Cons e es)
  from step_inv [OF Cons.prems, of euler e] obtain s1 where
    s1: "step euler self e = Inr s1" "state_inv s1"
      "\<forall>m \<in> set (trajectory_publisher s1). m \<in> set (trajectory_publisher self) \<or> in_limits m"
    by blast
  from Cons.IH [OF s1(2)] obtain s' where
    s': "run euler s1 es = Inr s'" "state_inv s'"
      "\<forall>m \<in> set (trajectory_publisher s'). m \<in> set (trajectory_publisher s1) \<or> in_limits m"
    by blast
  have "\<forall>m \<in> set (trajectory_publisher s'). m \<in> set (trajectory_publisher self) \<or> in_limits m"
    using s1(3) s'(3) by blast
  then show ?case
    using s1(1) s'(1,2) by simp
qed

subsection \<open>The test scenario, evaluated\<close>

lemma bearing1: "np_arctan2 (- 170 - 0) (- 170 - 0) = - (3 * pi / 4)"
  by (simp add: np_arctan2_def arctan_one)

lemma ned_bearing1: "yaw_enu_to_ned (- (3 * pi / 4)) = - (3 * pi / 4)"
proof -
  have r: "- pi \<le> - (3 * pi / 4)" "- (3 * pi / 4) < pi"
    using pi_gt_zero by linarith+
  have "wrap_to_pi (- (3 * pi / 4) + 2 * pi * of_int 1) = - (3 * pi / 4)"
    by (rule wrap_to_pi_shift [OF r])
  moreover have "pi / 2 - - (3 * pi / 4) = - (3 * pi / 4) + 2 * pi * of_int 1"
    by simp
  ultimately show ?thesis
    by (simp only: yaw_enu_to_ned_def Let_def)
qed

lemma ned_state1: "yaw_enu_to_ned 0 = pi / 2"
  using wrap_to_pi_id [of "pi / 2"] by (simp add: yaw_enu_to_ned_def)

lemma rel1: "get_relative_ned_yaw_cmd (pi / 2) (- (3 * pi / 4)) = 3 * pi / 4"
proof -
  have r: "- pi \<le> 3 * pi / 4" "3 * pi / 4 < pi"
    using pi_gt_zero by linarith+
  have "wrap_to_pi (3 * pi / 4 + 2 * pi * of_int (- 1)) = 3 * pi / 4"
    by (rule wrap_to_pi_shift [OF r])
  moreover have "- (3 * pi / 4) - pi / 2 = 3 * pi / 4 + 2 * pi * of_int (- 1)"
    by simp
  ultimately show ?thesis
    by (simp only: get_relative_ned_yaw_cmd_def Let_def)
qed

lemma np_clip_high:
  assumes "lo \<le> hi" and "hi \<le> a"
  shows "np_clip a lo hi = hi"
  using assms by (simp add: np_clip_def)

lemma roll1: "np_clip (0.5 * (3 * pi / 4)) (- np_deg2rad 45) (np_deg2rad 45) = np_deg2rad 45"
proof (rule np_clip_high [OF deg_bounds(1)])
  show "np_deg2rad 45 \<le> 0.5 * (3 * pi / 4)"
    unfolding np_deg2rad_def using pi_gt_zero by simp
qed

lemma pitch_high:
  assumes "dz = 50"
  shows "np_clip (0.25 * dz) (- np_deg2rad 15) (np_deg2rad 10) = np_deg2rad 10"
proof (rule np_clip_high [OF deg_bounds(2)])
  have "pi / 18 < 25 / 2"
    using pi_less_4 by linarith
  then show "np_deg2rad 10 \<le> 0.25 * dz"
    unfolding np_deg2rad_def assms by simp
qed

lemma scenario_command:
  "calculate_trajectory scenario_state = Inr (publish_trajectory scenario_state scenario_cmd)"
proof -
  have cs: "current_state scenario_state = [Some 0, Some 0, Some 0, Some 0, Some 0, Some 0, Some 0]"
    and tg: "target scenario_state = [- 170, - 170, 50]"
    by (simp_all add: scenario_state_def GuidancePublisher_init_def)
  have p: "np_clip (0.25 * (50 - 0)) (- np_deg2rad 15) (np_deg2rad 10) = np_deg2rad 10"
    by (rule pitch_high) simp
  show ?thesis
    unfolding calc_pop [OF cs tg] bearing1 ned_bearing1 ned_state1 rel1 roll1 p scenario_cmd_def
    by (rule refl)
qed

lemma scenario_run:
  "run scenario_euler GuidancePublisher_init [PoseSample scenario_msg] =
     Inr (publish_trajectory scenario_state scenario_cmd)"
proof -
  have "mavros_state_callback scenario_euler GuidancePublisher_init scenario_msg =
      calculate_trajectory scenario_state"
    by (subst callback_effect)
      (simp_all add: GuidancePublisher_init_def scenario_state_def scenario_msg_def scenario_euler_def)
  then show ?thesis
    by (simp add: scenario_command)
qed

text \<open>The same command, field by field.\<close>

lemma calc_pop_fields:
  assumes "current_state self = [Some x, Some y, Some z, phi, theta, Some psi, v]"
    and "target self = [tx, ty, tz]"
  shows "\<exists>m. calculate_trajectory self = Inr (publish_trajectory self m)
     \<and> yaw m = [get_relative_ned_yaw_cmd (yaw_enu_to_ned psi) (yaw_enu_to_ned (np_arctan2 (ty - y) (tx - x))),
                get_relative_ned_yaw_cmd (yaw_enu_to_ned psi) (yaw_enu_to_ned (np_arctan2 (ty - y) (tx - x)))]
     \<and> roll m = [np_clip (0.5 * hd (yaw m)) (- np_deg2rad 45) (np_deg2rad 45),
                 np_clip (0.5 * hd (yaw m)) (- np_deg2rad 45) (np_deg2rad 45)]
     \<and> pitch m = [np_clip (0.25 * (tz - z)) (- np_deg2rad 15) (np_deg2rad 10),
                  np_clip (0.25 * (tz - z)) (- np_deg2rad 15) (np_deg2rad 10)]
     \<and> idx m = 0 \<and> thrust m = [0.5, 0.5, 0.5]"
  apply (subst calc_pop [OF assms])
  apply (rule exI)
  apply (rule conjI)
   apply (rule refl)
  apply simp
  done

section \<open>The commands\<close>

text \<open>
  Claim C3, as stated, fails. In the scenario (vehicle at the origin, ENU yaw \<open>0\<close>,
  target \<open>(-170, -170, 50)\<close>) the relative yaw command is \<open>3\<pi>/4\<close>: its magnitude
  is \<open>\<pi>/2\<close> away from \<open>\<pi>/4\<close>, more than a radian.
\<close>
theorem scenario_yaw_magnitude_counterexample:
  "calculate_trajectory scenario_state = Inr (publish_trajectory scenario_state scenario_cmd)
   \<and> yaw scenario_cmd = [3 * pi / 4, 3 * pi / 4]
   \<and> \<bar>3 * pi / 4\<bar> - pi / 4 = pi / 2 \<and> 1 \<le> pi / 2"
proof -
  have "\<bar>3 * pi / 4\<bar> - pi / 4 = pi / 2 \<and> 1 \<le> pi / 2"
    using pi_ge_two by simp
  then show ?thesis
    by (simp add: scenario_command scenario_cmd_def)
qed

text \<open>
  Claim C3, amended. In the scenario the ENU bearing is
  \<open>atan2(-170, -170) = -3\<pi>/4\<close> and the relative yaw command is \<open>+3\<pi>/4\<close>; turning
  by it from the current NED heading gives the NED bearing of the target, up to a whole
  turn.
\<close>
theorem scenario_yaw_command:
  "np_arctan2 (- 170 - 0) (- 170 - 0) = - (3 * pi / 4)
   \<and> calculate_trajectory scenario_state = Inr (publish_trajectory scenario_state scenario_cmd)
   \<and> yaw scenario_cmd = [3 * pi / 4, 3 * pi / 4]
   \<and> wrap_to_pi (yaw_enu_to_ned 0 + 3 * pi / 4) = yaw_enu_to_ned (- (3 * pi / 4))"
proof -
  have r: "- pi \<le> - (3 * pi / 4)" "- (3 * pi / 4) < pi"
    using pi_gt_zero by linarith+
  have "wrap_to_pi (- (3 * pi / 4) + 2 * pi * of_int 1) = - (3 * pi / 4)"
    by (rule wrap_to_pi_shift [OF r])
  moreover have "pi / 2 + 3 * pi / 4 = - (3 * pi / 4) + 2 * pi * of_int 1"
    by simp
  ultimately have "wrap_to_pi (yaw_enu_to_ned 0 + 3 * pi / 4) = yaw_enu_to_ned (- (3 * pi / 4))"
    by (simp only: ned_state1 ned_bearing1)
  moreover have "yaw scenario_cmd = [3 * pi / 4, 3 * pi / 4]"
    by (simp add: scenario_cmd_def)
  ultimately show ?thesis
    using bearing1 scenario_command by blast
qed

text \<open>
  Claim C4, as stated, fails. In the scenario \<open>dz = 50\<close> and the pitch command is
  \<open>+10\<close> degrees, the upper bound, not \<open>-15\<close> degrees.
\<close>
theorem scenario_pitch_bound_counterexample:
  "calculate_trajectory scenario_state = Inr (publish_trajectory scenario_state scenario_cmd)
   \<and> pitch scenario_cmd = [np_deg2rad 10, np_deg2rad 10]
   \<and> np_deg2rad 10 \<noteq> - np_deg2rad 15"
proof -
  have "- (15 * (pi / 180)) < 10 * (pi / 180)"
    using pi_gt_zero by linarith
  then have "np_deg2rad 10 \<noteq> - np_deg2rad 15"
    unfolding np_deg2rad_def by simp
  then show ?thesis
    by (simp add: scenario_command scenario_cmd_def)
qed

text \<open>
  Claim C4, amended. When the vertical error is \<open>dz = 50\<close>, the pitch command saturates
  at its upper bound of \<open>+10\<close> degrees (in radians), since \<open>0.25 \<times> 50\<close> is above it.
\<close>
theorem pitch_saturates_at_upper_bound:
  assumes "current_state self = [Some x, Some y, Some z, Some phi, Some theta, Some psi, Some v]"
    and "target self = [tx, ty, tz]"
    and "tz - z = 50"
  shows "\<exists>m. calculate_trajectory self = Inr (publish_trajectory self m)
           \<and> pitch m = [np_deg2rad 10, np_deg2rad 10]
           \<and> np_deg2rad 10 < 0.25 * (tz - z)"
proof -
  from calc_pop_fields [OF assms(1,2)] obtain m where
    m: "calculate_trajectory self = Inr (publish_trajectory self m)"
      "pitch m = [np_clip (0.25 * (tz - z)) (- np_deg2rad 15) (np_deg2rad 10),
                  np_clip (0.25 * (tz - z)) (- np_deg2rad 15) (np_deg2rad 10)]"
    by blast
  have "pi / 18 < 25 / 2"
    using pi_less_4 by linarith
  then have "np_deg2rad 10 < 0.25 * (tz - z)"
    unfolding np_deg2rad_def assms(3) by simp
  moreover have "pitch m = [np_deg2rad 10, np_deg2rad 10]"
    unfolding m(2) pitch_high [OF assms(3)] by (rule refl)
  ultimately show ?thesis
    using m(1) by blast
qed

theorem pitch_saturates_at_upper_bound_witness:
  "current_state scenario_state = [Some 0, Some 0, Some 0, Some 0, Some 0, Some 0, Some 0]
   \<and> target scenario_state = [- 170, - 170, 50]
   \<and> (50 :: real) - 0 = 50
   \<and> (\<exists>m. calculate_trajectory scenario_state = Inr (publish_trajectory scenario_state m)
           \<and> pitch m = [np_deg2rad 10, np_deg2rad 10])"
proof -
  have cs: "current_state scenario_state = [Some 0, Some 0, Some 0, Some 0, Some 0, Some 0, Some 0]"
    and tg: "target scenario_state = [- 170, - 170, 50]"
    by (simp_all add: scenario_state_def GuidancePublisher_init_def)
  have dz: "(50 :: real) - 0 = 50"
    by simp
  from pitch_saturates_at_upper_bound [OF cs tg dz] show ?thesis
    using cs tg by auto
qed

text \<open>
  Claim C5. For every fully populated vehicle state, the roll command is
  \<open>0.5\<close> times the relative yaw command clipped to \<open>[-45, 45]\<close> degrees, so its
  magnitude is at most \<open>45\<close> degrees in radians.
\<close>
theorem roll_cmd_clamped:
  assumes "current_state self = [Some x, Some y, Some z, Some phi, Some theta, Some psi, Some v]"
    and "target self = [tx, ty, tz]"
  shows "\<exists>m rel r. calculate_trajectory self = Inr (publish_trajectory self m)
           \<and> yaw m = [rel, rel] \<and> roll m = [r, r]
           \<and> rel = get_relative_ned_yaw_cmd (yaw_enu_to_ned psi)
                     (yaw_enu_to_ned (np_arctan2 (ty - y) (tx - x)))
           \<and> r = np_clip (0.5 * rel) (- np_deg2rad 45) (np_deg2rad 45)
           \<and> \<bar>r\<bar> \<le> np_deg2rad 45"
proof -
  define rel where "rel = get_relative_ned_yaw_cmd (yaw_enu_to_ned psi)
                     (yaw_enu_to_ned (np_arctan2 (ty - y) (tx - x)))"
  define r where "r = np_clip (0.5 * rel) (- np_deg2rad 45) (np_deg2rad 45)"
  from calc_pop_fields [OF assms] obtain m where
    m: "calculate_trajectory self = Inr (publish_trajectory self m)"
      "yaw m = [rel, rel]"
      "roll m = [np_clip (0.5 * hd (yaw m)) (- np_deg2rad 45) (np_deg2rad 45),
                 np_clip (0.5 * hd (yaw m)) (- np_deg2rad 45) (np_deg2rad 45)]"
    unfolding rel_def by blast
  have "roll m = [r, r]"
    unfolding m(3) m(2) r_def by simp
  moreover have "\<bar>r\<bar> \<le> np_deg2rad 45"
    unfolding r_def using np_clip_bounds [OF deg_bounds(1), of "0.5 * rel"] by (simp add: abs_le_iff)
  ultimately show ?thesis
    using m(1,2) rel_def r_def by blast
qed

theorem roll_cmd_clamped_witness:
  "current_state scenario_state = [Some 0, Some 0, Some 0, Some 0, Some 0, Some 0, Some 0]
   \<and> target scenario_state = [- 170, - 170, 50]
   \<and> (\<exists>m r. calculate_trajectory scenario_state = Inr (publish_trajectory scenario_state m)
           \<and> roll m = [r, r] \<and> \<bar>r\<bar> \<le> np_deg2rad 45)"
proof -
  have cs: "current_state scenario_state = [Some 0, Some 0, Some 0, Some 0, Some 0, Some 0, Some 0]"
    and tg: "target scenario_state = [- 170, - 170, 50]"
    by (simp_all add: scenario_state_def GuidancePublisher_init_def)
  from roll_cmd_clamped [OF cs tg] show ?thesis
    using cs tg by auto
qed

text \<open>
  Claim C6. For every fully populated vehicle state, the pitch command is
  \<open>0.25 \<times> dz\<close> clipped to \<open>[-15, 10]\<close> degrees, so it lies in that interval, in
  radians.
\<close>
theorem pitch_cmd_clamped:
  assumes "current_state self = [Some x, Some y, Some z, Some phi, Some theta, Some psi, Some v]"
    and "target self = [tx, ty, tz]"
  shows "\<exists>m p. calculate_trajectory self = Inr (publish_trajectory self m)
           \<and> pitch m = [p, p]
           \<and> p = np_clip (0.25 * (tz - z)) (- np_deg2rad 15) (np_deg2rad 10)
           \<and> - np_deg2rad 15 \<le> p \<and> p \<le> np_deg2rad 10"
proof -
  define p where "p = np_clip (0.25 * (tz - z)) (- np_deg2rad 15) (np_deg2rad 10)"
  from calc_pop_fields [OF assms] obtain m where
    m: "calculate_trajectory self = Inr (publish_trajectory self m)" "pitch m = [p, p]"
    unfolding p_def by blast
  have "- np_deg2rad 15 \<le> p" and "p \<le> np_deg2rad 10"
    unfolding p_def by (rule np_clip_bounds [OF deg_bounds(2)])+
  then show ?thesis
    using m p_def by blast
qed

theorem pitch_cmd_clamped_witness:
  "current_state scenario_state = [Some 0, Some 0, Some 0, Some 0, Some 0, Some 0, Some 0]
   \<and> target scenario_state = [- 170, - 170, 50]
   \<and> (\<exists>m p. calculate_trajectory scenario_state = Inr (publish_trajectory scenario_state m)
           \<and> pitch m = [p, p] \<and> - np_deg2rad 15 \<le> p \<and> p \<le> np_deg2rad 10)"
proof -
  have cs: "current_state scenario_state = [Some 0, Some 0, Some 0, Some 0, Some 0, Some 0, Some 0]"
    and tg: "target scenario_state = [- 170, - 170, 50]"
    by (simp_all add: scenario_state_def GuidancePublisher_init_def)
  from pitch_cmd_clamped [OF cs tg] show ?thesis
    using cs tg by auto
qed

section \<open>The guard and the reachable states\<close>

text \<open>Direct calls on a fresh node change nothing.\<close>

lemma run_compute_only:
  "run euler GuidancePublisher_init (replicate n ComputeCommand) = Inr GuidancePublisher_init"
proof (induction n)
  case 0
  show ?case by simp
next
  case (Suc n)
  have "calculate_trajectory GuidancePublisher_init = Inr GuidancePublisher_init"
    by (rule calc_guard) (simp add: GuidancePublisher_init_def getitem_def)
  then show ?case
    using Suc by simp
qed

text \<open>
  Claim C7. While the x slot of the state is still \<open>None\<close>, \<open>calculate_trajectory\<close>
  returns normally and leaves the node as it was, so it publishes nothing; on a fresh
  node, any number of calls leaves the outbound channel empty.
\<close>
theorem no_command_before_first_pose:
  "(current_state self = None # rest \<longrightarrow> calculate_trajectory self = Inr self)
   \<and> run euler GuidancePublisher_init (replicate n ComputeCommand) = Inr GuidancePublisher_init
   \<and> trajectory_publisher GuidancePublisher_init = []"
proof -
  have "calculate_trajectory self = Inr self" if "current_state self = None # rest"
    using that by (intro calc_guard) (simp add: getitem_def)
  moreover have "trajectory_publisher GuidancePublisher_init = []"
    by (simp add: GuidancePublisher_init_def)
  ultimately show ?thesis
    using run_compute_only by blast
qed

theorem no_command_before_first_pose_witness:
  "current_state GuidancePublisher_init = None # [None, None, None, None, None, None]
   \<and> calculate_trajectory GuidancePublisher_init = Inr GuidancePublisher_init
   \<and> run scenario_euler GuidancePublisher_init (replicate 3 ComputeCommand) = Inr GuidancePublisher_init
   \<and> trajectory_publisher GuidancePublisher_init = []"
proof -
  have h: "current_state GuidancePublisher_init = None # [None, None, None, None, None, None]"
    by (simp add: GuidancePublisher_init_def)
  from no_command_before_first_pose
    [of GuidancePublisher_init "[None, None, None, None, None, None]" scenario_euler 3]
  show ?thesis
    using h by blast
qed

text \<open>
  Claim C9. Whatever events a fresh node has gone through, it has raised nothing and
  its state has seven slots; if the x slot is written then all seven are, so a call
  that publishes a command runs on a fully populated state; and the callback runs the
  command computation on a state in which it has written all seven slots.
\<close>
theorem command_only_from_full_state:
  "\<exists>self. run euler GuidancePublisher_init es = Inr self
     \<and> length (current_state self) = 7
     \<and> (current_state self ! 0 \<noteq> None \<longrightarrow> fully_populated self)
     \<and> (\<forall>s'. calculate_trajectory self = Inr s'
            \<and> trajectory_publisher s' \<noteq> trajectory_publisher self \<longrightarrow> fully_populated self)
     \<and> (\<forall>msg. \<exists>mid. mavros_state_callback euler self msg = calculate_trajectory mid
            \<and> fully_populated mid)"
proof -
  from run_inv [OF init_inv, of euler es] obtain self where
    self: "run euler GuidancePublisher_init es = Inr self" "state_inv self"
    by blast
  have len: "length (current_state self) = 7"
    using self(2) by (simp add: state_inv_def)
  then obtain a b c d e f g where cs: "current_state self = [a, b, c, d, e, f, g]"
    by (rule list7)
  have full: "fully_populated self" if "current_state self ! 0 \<noteq> None"
    using that self(2) cs by (auto simp: state_inv_def fully_populated_def)
  have guard: "fully_populated self"
    if "calculate_trajectory self = Inr s'"
      and "trajectory_publisher s' \<noteq> trajectory_publisher self" for s'
  proof (rule full, rule notI)
    assume "current_state self ! 0 = None"
    then have "calculate_trajectory self = Inr self"
      using cs by (intro calc_guard) (simp add: getitem_def)
    with that show False by simp
  qed
  have cb: "\<exists>mid. mavros_state_callback euler self msg = calculate_trajectory mid
      \<and> fully_populated mid" for msg
    unfolding callback_effect [OF len, of euler msg]
    by (rule exI, rule conjI, rule refl) (simp add: fully_populated_def)
  show ?thesis
    using self(1) len full guard cb by blast
qed

theorem command_only_from_full_state_witness:
  "run scenario_euler GuidancePublisher_init [PoseSample scenario_msg] =
     Inr (publish_trajectory scenario_state scenario_cmd)
   \<and> current_state (publish_trajectory scenario_state scenario_cmd) ! 0 \<noteq> None
   \<and> fully_populated (publish_trajectory scenario_state scenario_cmd)
   \<and> calculate_trajectory (publish_trajectory scenario_state scenario_cmd) =
       Inr (publish_trajectory (publish_trajectory scenario_state scenario_cmd) scenario_cmd)
   \<and> trajectory_publisher (publish_trajectory (publish_trajectory scenario_state scenario_cmd) scenario_cmd)
       \<noteq> trajectory_publisher (publish_trajectory scenario_state scenario_cmd)"
proof -
  let ?s = "publish_trajectory scenario_state scenario_cmd"
  have nz: "current_state ?s ! 0 \<noteq> None"
    by (simp add: publish_trajectory_def scenario_state_def)
  have cs: "current_state ?s = [Some 0, Some 0, Some 0, Some 0, Some 0, Some 0, Some 0]"
    and tg: "target ?s = [- 170, - 170, 50]"
    by (simp_all add: publish_trajectory_def scenario_state_def GuidancePublisher_init_def)
  have p: "np_clip (0.25 * (50 - 0)) (- np_deg2rad 15) (np_deg2rad 10) = np_deg2rad 10"
    by (rule pitch_high) simp
  have again: "calculate_trajectory ?s = Inr (publish_trajectory ?s scenario_cmd)"
    using calc_pop [OF cs tg]
    by (simp only: bearing1 ned_bearing1 ned_state1 rel1 roll1 p scenario_cmd_def)
  have ne: "trajectory_publisher (publish_trajectory ?s scenario_cmd) \<noteq> trajectory_publisher ?s"
    by (simp add: publish_trajectory_def)
  from command_only_from_full_state [of scenario_euler "[PoseSample scenario_msg]"]
  show ?thesis
    using scenario_run nz again ne by auto
qed

text \<open>
  Claim C10. The yaw field of every published message holds the same value twice, and
  that value lies in \<open>[-\<pi>, \<pi>)\<close>: for the message a single call publishes on any
  node, and for every message on the channel after any run of a fresh node.
\<close>
theorem yaw_field_wrapped:
  "(\<forall>s'. calculate_trajectory self = Inr s' \<longrightarrow>
       s' = self \<or> (\<exists>m r. s' = publish_trajectory self m \<and> yaw m = [r, r] \<and> - pi \<le> r \<and> r < pi))
   \<and> (\<exists>s. run euler GuidancePublisher_init es = Inr s
         \<and> (\<forall>m \<in> set (trajectory_publisher s). \<exists>r. yaw m = [r, r] \<and> - pi \<le> r \<and> r < pi))"
proof -
  have lim: "\<exists>r. yaw m = [r, r] \<and> - pi \<le> r \<and> r < pi" if "in_limits m" for m
    using that unfolding in_limits_def by blast
  have one: "s' = self \<or> (\<exists>m r. s' = publish_trajectory self m \<and> yaw m = [r, r] \<and> - pi \<le> r \<and> r < pi)"
    if "calculate_trajectory self = Inr s'" for s'
    using calc_result [OF that] lim by blast
  from run_inv [OF init_inv, of euler es] obtain s where
    s: "run euler GuidancePublisher_init es = Inr s"
      "\<forall>m \<in> set (trajectory_publisher s). m \<in> set (trajectory_publisher GuidancePublisher_init) \<or> in_limits m"
    by blast
  have "\<forall>m \<in> set (trajectory_publisher s). in_limits m"
    using s(2) by (simp add: GuidancePublisher_init_def)
  then have "\<forall>m \<in> set (trajectory_publisher s). \<exists>r. yaw m = [r, r] \<and> - pi \<le> r \<and> r < pi"
    using lim by blast
  then show ?thesis
    using one s(1) by blast
qed

theorem yaw_field_wrapped_witness:
  "calculate_trajectory scenario_state = Inr (publish_trajectory scenario_state scenario_cmd)
   \<and> publish_trajectory scenario_state scenario_cmd \<noteq> scenario_state
   \<and> run scenario_euler GuidancePublisher_init [PoseSample scenario_msg] =
       Inr (publish_trajectory scenario_state scenario_cmd)
   \<and> scenario_cmd \<in> set (trajectory_publisher (publish_trajectory scenario_state scenario_cmd))
   \<and> yaw scenario_cmd = [3 * pi / 4, 3 * pi / 4] \<and> - pi \<le> 3 * pi / 4 \<and> 3 * pi / 4 < pi"
proof -
  have ne: "publish_trajectory scenario_state scenario_cmd \<noteq> scenario_state"
  proof
    assume "publish_trajectory scenario_state scenario_cmd = scenario_state"
    then have "trajectory_publisher (publish_trajectory scenario_state scenario_cmd)
        = trajectory_publisher scenario_state"
      by simp
    then show False
      by (simp add: publish_trajectory_def)
  qed
  have mem: "scenario_cmd \<in> set (trajectory_publisher (publish_trajectory scenario_state scenario_cmd))"
    by (simp add: publish_trajectory_def)
  have y: "yaw scenario_cmd = [3 * pi / 4, 3 * pi / 4]"
    by (simp add: scenario_cmd_def)
  from yaw_field_wrapped [of scenario_state scenario_euler "[PoseSample scenario_msg]"]
  have "\<exists>r. yaw scenario_cmd = [r, r] \<and> - pi \<le> r \<and> r < pi"
    using scenario_run mem by auto
  then show ?thesis
    using scenario_command ne scenario_run mem y by auto
qed

end
